theory Spec2Isabelle
  imports Main "HOL-Library.Word" "HOL-Library.Char_ord" "HOL-Library.AList"
begin

unbundle bit_operations_syntax

section \<open>Bytes and errors\<close>

text \<open>
  A Go \<^verbatim>\<open>byte\<close> is a \<^typ>\<open>char\<close> (eight bits, ordered by its code), a Go
  \<^verbatim>\<open>string\<close> is a \<^typ>\<open>string\<close> of bytes, a \<^verbatim>\<open>rune\<close> and the positions
  (\<^verbatim>\<open>int64\<close>) are \<^typ>\<open>int\<close>: none of them comes near its bound here.
\<close>

type_synonym byte = char
type_synonym rune = int

text \<open>The two causes a \<^verbatim>\<open>*strconv.NumError\<close> can carry.\<close>

datatype num_cause = strconv_ErrSyntax | strconv_ErrRange

text \<open>
  \<^verbatim>\<open>internal.SyntaxError\<close> (message, context phrase, line, column, offending byte), the
  error of package \<^verbatim>\<open>strconv\<close> (function, input, cause), a run-time panic, and the
  model's own signal that a loop ran out of its step budget.
\<close>

datatype error =
    SyntaxError (msg: string) (Context: string) (Pos0: int) (Pos1: int) (AtChar: byte)
  | NumError (Func: string) (Num: string) (Cause: num_cause)
  | Panic string
  | OutOfFuel

definition ErrSyntax :: string where
  "ErrSyntax = ''invalid character''"

definition ErrUnexpectedEOF :: string where
  "ErrUnexpectedEOF = ''unexpected end of JSON input''"

section \<open>Scratch buffer\<close>

text \<open>
  \<^verbatim>\<open>Scratch{Data []byte; fill int}\<close>. The backing array of \<^verbatim>\<open>Data\<close> is an index
  function together with its capacity (\<^verbatim>\<open>len(Data) = cap(Data)\<close> throughout, both
  come from \<^verbatim>\<open>make([]byte, n)\<close>).
\<close>

record Scratch =
  Data :: "nat \<Rightarrow> byte"
  cap :: nat
  fill :: nat

definition Reset :: "Scratch \<Rightarrow> Scratch" where
  "Reset s = s\<lparr>fill := 0\<rparr>"

definition Bytes :: "Scratch \<Rightarrow> byte list" where
  "Bytes s = map (Data s) [0..<fill s]"

definition grow :: "Scratch \<Rightarrow> Scratch" where
  "grow s = s\<lparr>Data := (\<lambda>i. if i < cap s then Data s i else CHR 0x00), cap := cap s * 2\<rparr>"

definition Add :: "byte \<Rightarrow> Scratch \<Rightarrow> Scratch" where
  "Add c s =
     (let s1 = (if fill s + 1 \<ge> cap s then grow s else s)
      in s1\<lparr>Data := (Data s1)(fill s1 := c), fill := fill s1 + 1\<rparr>)"

text \<open>
  \<^verbatim>\<open>utf8.EncodeRune\<close> of the Go library: a rune beyond \<^verbatim>\<open>MaxRune\<close>, a negative one
  (huge as \<^verbatim>\<open>uint32\<close>) and a surrogate half are all written as \<^verbatim>\<open>RuneError\<close>, U+FFFD.
\<close>

definition RuneError :: rune where
  "RuneError = 0xFFFD"

definition UTFMax :: nat where
  "UTFMax = 4"

definition EncodeRune :: "rune \<Rightarrow> byte list" where
  "EncodeRune r =
     (if 0 \<le> r \<and> r \<le> 0x7F then [char_of r]
      else if 0 \<le> r \<and> r \<le> 0x7FF then
        [char_of (0xC0 OR drop_bit 6 r), char_of (0x80 OR (r AND 0x3F))]
      else
        (let r' = (if r < 0 \<or> r > 0x10FFFF \<or> (0xD800 \<le> r \<and> r \<le> 0xDFFF) then RuneError else r)
         in if r' \<le> 0xFFFF then
              [char_of (0xE0 OR drop_bit 12 r'), char_of (0x80 OR (drop_bit 6 r' AND 0x3F)),
               char_of (0x80 OR (r' AND 0x3F))]
            else
              [char_of (0xF0 OR drop_bit 18 r'), char_of (0x80 OR (drop_bit 12 r' AND 0x3F)),
               char_of (0x80 OR (drop_bit 6 r' AND 0x3F)), char_of (0x80 OR (r' AND 0x3F))]))"

definition AddRune :: "rune \<Rightarrow> Scratch \<Rightarrow> Scratch" where
  "AddRune r s =
     (let s1 = (if fill s + UTFMax \<ge> cap s then grow s else s);
          p = EncodeRune r
      in s1\<lparr>Data := (\<lambda>i. if fill s1 \<le> i \<and> i < fill s1 + length p then p ! (i - fill s1)
                          else Data s1 i),
             fill := fill s1 + length p\<rparr>)"

section \<open>Scanner\<close>

definition chunk :: int where
  "chunk = 4095"

definition maxInt :: int where
  "maxInt = 2 ^ 63 - 1"

text \<open>
  What the next receive on the channel \<^verbatim>\<open>fillReady\<close> yields: the count the worker is
  blocked sending, or the zero value of the closed channel.
\<close>

datatype fill_result = Filled int | Closed

text \<open>
  The struct \<^verbatim>\<open>Scanner\<close>. The arrays \<^verbatim>\<open>buf\<close> (indices 0..4095) and \<^verbatim>\<open>nbuf\<close>
  (indices 0..4094) are index functions. The prefetch goroutine is part of the state: its
  reader \<^verbatim>\<open>r\<close>, given by the bytes each successive \<^verbatim>\<open>Read\<close> has available (an empty
  entry is a read of zero bytes without error, the end of the list is \<^verbatim>\<open>io.EOF\<close>), and
  its local \<^verbatim>\<open>rpos\<close>. The goroutine is scheduled run-to-block: it serves a fill request
  before the parser takes its next step, so that it is always either blocked sending a
  count or has stored \<^verbatim>\<open>End\<close> and closed the channel.
\<close>

record Scanner =
  Pos :: int
  End :: int
  ipos :: int
  ifill :: int
  buf :: "int \<Rightarrow> byte"
  nbuf :: "int \<Rightarrow> byte"
  fillReady :: fill_result
  reader :: "byte list list"
  rpos :: int

text \<open>
  The body of the goroutine for one fill request: \<^verbatim>\<open>r.Read(sr.nbuf[:])\<close> takes at most
  \<^verbatim>\<open>chunk\<close> bytes of what the reader has available; zero bytes without error is retried.
\<close>

fun worker :: "byte list list \<Rightarrow> 'a Scanner_scheme \<Rightarrow> 'a Scanner_scheme" where
  "worker [] s = s\<lparr>End := rpos s, fillReady := Closed, reader := []\<rparr>"
| "worker (avail # rest) s =
     (if avail = [] then worker rest s
      else
        (let p = take (nat chunk) avail;
             n = int (length p)
         in s\<lparr>nbuf := (\<lambda>i. if 0 \<le> i \<and> i < n then p ! nat i else nbuf s i),
              rpos := rpos s + n,
              fillReady := Filled n,
              reader := (if drop (nat chunk) avail = [] then rest
                         else drop (nat chunk) avail # rest)\<rparr>))"

definition New :: "byte list list \<Rightarrow> Scanner" where
  "New r =
     worker r \<lparr>Pos = 0, End = maxInt, ipos = 0, ifill = 0,
               buf = (\<lambda>_. CHR 0x00), nbuf = (\<lambda>_. CHR 0x00),
               fillReady = Closed, reader = r, rpos = 0\<rparr>"

definition Remaining :: "'a Scanner_scheme \<Rightarrow> int" where
  "Remaining s = (if End s = maxInt then maxInt else End s - Pos s)"

definition Cur :: "'a Scanner_scheme \<Rightarrow> byte" where
  "Cur s = buf s (ipos s)"

text \<open>The branch of \<^verbatim>\<open>Next\<close> taken when the internal buffer is exhausted.\<close>

definition refill :: "'a Scanner_scheme \<Rightarrow> 'a Scanner_scheme" where
  "refill s =
     (let n = (case fillReady s of Filled n \<Rightarrow> n | Closed \<Rightarrow> 0);
          s1 = s\<lparr>ifill := n\<rparr>;
          s2 = s1\<lparr>buf := (buf s1)(0 := buf s1 chunk)\<rparr>;
          s3 = s2\<lparr>buf := (\<lambda>i. if 1 \<le> i \<and> i \<le> chunk then nbuf s2 (i - 1) else buf s2 i)\<rparr>;
          s4 = s3\<lparr>ipos := 1\<rparr>
      in if End s4 = maxInt then worker (reader s4) s4 else s4)"

definition Next :: "'a Scanner_scheme \<Rightarrow> byte \<times> 'a Scanner_scheme" where
  "Next s =
     (if Pos s \<ge> End s then (CHR 0x00, s)
      else
        (let s1 = s\<lparr>ipos := ipos s + 1\<rparr>;
             s2 = (if ipos s1 > ifill s1 then refill s1 else s1);
             s3 = s2\<lparr>Pos := Pos s2 + 1\<rparr>
         in (buf s3 (ipos s3), s3)))"

text \<open>\<^verbatim>\<open>Back\<close> panics when there is no byte to step back to.\<close>

definition Back :: "'a Scanner_scheme \<Rightarrow> 'a Scanner_scheme option" where
  "Back s =
     (if ipos s \<le> 0 then None
      else Some (s\<lparr>ipos := ipos s - 1, Pos := Pos s - 1\<rparr>))"

section \<open>Decoded values\<close>

datatype ValueType = Unknown | Null | String | Number | Boolean | Array | Object

text \<open>
  What an \<^verbatim>\<open>interface{}\<close> holds in this program: \<^verbatim>\<open>nil\<close>, \<^verbatim>\<open>bool\<close>, \<^verbatim>\<open>string\<close>,
  the untyped constant \<^verbatim>\<open>0\<close> that \<^verbatim>\<open>number\<close> returns beside an error (an \<^verbatim>\<open>int\<close>),
  \<^verbatim>\<open>int64\<close>, \<^verbatim>\<open>float64\<close>, \<^verbatim>\<open>[]interface{}\<close>, \<^verbatim>\<open>map[string]interface{}\<close> (an
  association list with one entry for each key, \<^verbatim>\<open>None\<close> for the nil map), \<^verbatim>\<open>KVS\<close>
  (\<^verbatim>\<open>None\<close> for the nil slice) and \<^verbatim>\<open>KV\<close>. The type \<^verbatim>\<open>float64\<close> is the parameter
  \<open>'f\<close>: its values only come from \<^verbatim>\<open>strconv.ParseFloat\<close> and unary minus, which
  the decoder takes as arguments.
\<close>

datatype 'f val =
    VNil
  | VBool bool
  | VString string
  | VInt int
  | VInt64 "64 word"
  | VFloat64 'f
  | VArray "'f val list"
  | VMap "(string \<times> 'f val) list option"
  | VKVS "(string \<times> 'f val) list option"
  | VKV string "'f val"

record 'f float64 =
  ParseFloat :: "string \<Rightarrow> 'f \<times> num_cause option"
  fneg :: "'f \<Rightarrow> 'f"

subsection \<open>\<^verbatim>\<open>strconv.ParseInt(s, 10, 64)\<close>\<close>

fun ParseUint_loop :: "int \<Rightarrow> string \<Rightarrow> int \<times> num_cause option" where
  "ParseUint_loop n [] = (n, None)"
| "ParseUint_loop n (c # cs) =
     (if \<not> (CHR ''0'' \<le> c \<and> c \<le> CHR ''9'') then (0, Some strconv_ErrSyntax)
      else
        (let n1 = n * 10 + (of_char c - of_char (CHR ''0''))
         in if n1 \<ge> 2 ^ 64 then (2 ^ 64 - 1, Some strconv_ErrRange)
            else ParseUint_loop n1 cs))"

definition ParseUint :: "string \<Rightarrow> int \<times> num_cause option" where
  "ParseUint s = (if s = [] then (0, Some strconv_ErrSyntax) else ParseUint_loop 0 s)"

definition ParseInt :: "string \<Rightarrow> 64 word \<times> error option" where
  "ParseInt s0 =
     (if s0 = [] then (0, Some (NumError ''ParseInt'' s0 strconv_ErrSyntax))
      else
        (let neg = (hd s0 = CHR ''-'');
             s = (if hd s0 = CHR ''+'' \<or> hd s0 = CHR ''-'' then tl s0 else s0);
             (un, e) = ParseUint s;
             cutoff = (2 :: int) ^ 63
         in if e = Some strconv_ErrSyntax then (0, Some (NumError ''ParseInt'' s0 strconv_ErrSyntax))
            else if \<not> neg \<and> un \<ge> cutoff then
              (word_of_int (cutoff - 1), Some (NumError ''ParseInt'' s0 strconv_ErrRange))
            else if neg \<and> un > cutoff then
              (- word_of_int cutoff, Some (NumError ''ParseInt'' s0 strconv_ErrRange))
            else (if neg then - word_of_int un else word_of_int un, None)))"

subsection \<open>Slices of strings\<close>

text \<open>
  A \<^verbatim>\<open>[]string\<close> is a slice header (address of the backing array, length, capacity); the
  backing arrays live in a store indexed by address. \<^verbatim>\<open>append\<close> writes in place when the
  capacity allows it and otherwise moves the elements to a new array, of the capacity the
  Go runtime chooses for one more element (\<^verbatim>\<open>runtime.nextslicecap\<close>: 1, then doubling, then
  growth by a quarter from 256 on). Address 0 holds the array of the empty slice.
\<close>

datatype slice = Slice (sptr: nat) (slen: nat) (scap: nat)

definition empty_slice :: slice where
  "empty_slice = Slice 0 0 0"

definition nextslicecap :: "nat \<Rightarrow> nat" where
  "nextslicecap oldCap =
     (if oldCap = 0 then 1
      else if oldCap < 256 then oldCap + oldCap
      else oldCap + drop_bit 2 (oldCap + 3 * 256))"

definition append1 :: "string list list \<Rightarrow> slice \<Rightarrow> string \<Rightarrow> slice \<times> string list list" where
  "append1 h s x =
     (if slen s + 1 \<le> scap s then
        (Slice (sptr s) (slen s + 1) (scap s), h[sptr s := (h ! sptr s)[slen s := x]])
      else
        (let newcap = nextslicecap (scap s);
             a = take (slen s) (h ! sptr s) @ [x] @ replicate (newcap - slen s - 1) []
         in (Slice (length h) (slen s + 1) newcap, h @ [a])))"

definition contents :: "string list list \<Rightarrow> slice \<Rightarrow> string list" where
  "contents h s = take (slen s) (h ! sptr s)"

section \<open>Decoder\<close>

record 'f MetaValue =
  Offset :: int
  Length :: int
  Depth :: int
  Keys :: slice
  Value :: "'f val"
  ValueType :: ValueType

text \<open>
  The struct \<^verbatim>\<open>Decoder\<close>, embedding the scanner. \<^verbatim>\<open>metaCh\<close> is the sequence of values
  sent on the channel, oldest first, each with the contents its \<^verbatim>\<open>Keys\<close> had when it
  was sent; \<^verbatim>\<open>heap\<close> is the store of the key-path arrays.
\<close>

record 'f Decoder = Scanner +
  emitDepth :: int
  emitKV :: bool
  emitRecursive :: bool
  objectAsKVS :: bool
  depth :: int
  scratch :: Scratch
  metaCh :: "('f MetaValue \<times> string list) list"
  err :: "error option"
  lineNo :: int
  lineStart :: int
  heap :: "string list list"

definition NewDecoder :: "byte list list \<Rightarrow> int \<Rightarrow> 'f Decoder" where
  "NewDecoder r ed =
     (let d = Scanner.extend (New r)
                (Decoder.fields ed False False False 0
                   \<lparr>Data = (\<lambda>_. CHR 0x00), cap = 1024, fill = 0\<rparr> [] None 0 0 [[]])
      in if ed < 0 then d\<lparr>emitDepth := 0, emitRecursive := True\<rparr> else d)"

definition ObjectAsKVS :: "'f Decoder \<Rightarrow> 'f Decoder" where
  "ObjectAsKVS d = d\<lparr>objectAsKVS := True\<rparr>"

definition EmitKV :: "'f Decoder \<Rightarrow> 'f Decoder" where
  "EmitKV d = d\<lparr>emitKV := True\<rparr>"

definition Recursive :: "'f Decoder \<Rightarrow> 'f Decoder" where
  "Recursive d = d\<lparr>emitRecursive := True\<rparr>"

definition willEmit :: "'f Decoder \<Rightarrow> bool" where
  "willEmit d = (if emitRecursive d then depth d \<ge> emitDepth d else depth d = emitDepth d)"

definition mkError :: "string \<Rightarrow> string list \<Rightarrow> 'f Decoder \<Rightarrow> error" where
  "mkError m context d =
     SyntaxError m (case context of [] \<Rightarrow> [] | c # _ \<Rightarrow> c) (lineNo d + 1) (Pos d - lineStart d) (Cur d)"

definition send :: "'f MetaValue \<Rightarrow> 'f Decoder \<Rightarrow> 'f Decoder" where
  "send mv d = d\<lparr>metaCh := metaCh d @ [(mv, contents (heap d) (Keys mv))]\<rparr>"

text \<open>\<^verbatim>\<open>skipSpaces\<close>; \<open>None\<close> when the step budget is used up.\<close>

fun skipSpaces :: "nat \<Rightarrow> 'f Decoder \<Rightarrow> byte option \<times> 'f Decoder" where
  "skipSpaces 0 d = (None, d)"
| "skipSpaces (Suc n) d =
     (if Pos d < End d then
        (let (c, d1) = Next d
         in if c = CHR 0x0A then skipSpaces n (d1\<lparr>lineStart := Pos d1, lineNo := lineNo d1 + 1\<rparr>)
            else if c = CHR '' '' \<or> c = CHR 0x09 \<or> c = CHR 0x0D then skipSpaces n d1
            else (Some c, d1))
      else (Some (CHR 0x00), d))"

subsection \<open>Strings\<close>

text \<open>\<^verbatim>\<open>u4\<close>: the loop over the four hex digits, \<open>h\<close> holding the digits read so far.\<close>

fun u4_loop :: "nat \<Rightarrow> int list \<Rightarrow> 'f Decoder \<Rightarrow> rune \<times> 'f Decoder" where
  "u4_loop 0 h d = (push_bit 12 (h ! 0) + push_bit 8 (h ! 1) + push_bit 4 (h ! 2) + h ! 3, d)"
| "u4_loop (Suc k) h d =
     (let (c, d1) = Next d
      in if c \<ge> CHR ''0'' \<and> c \<le> CHR ''9'' then
           u4_loop k (h @ [of_char c - of_char (CHR ''0'')]) d1
         else if c \<ge> CHR ''A'' \<and> c \<le> CHR ''F'' then
           u4_loop k (h @ [of_char c - of_char (CHR ''A'') + 10]) d1
         else if c \<ge> CHR ''a'' \<and> c \<le> CHR ''f'' then
           u4_loop k (h @ [of_char c - of_char (CHR ''a'') + 10]) d1
         else (- 1, d1))"

definition u4 :: "'f Decoder \<Rightarrow> rune \<times> 'f Decoder" where
  "u4 d = u4_loop 4 [] d"

text \<open>\<^verbatim>\<open>utf16.IsSurrogate\<close> and \<^verbatim>\<open>utf16.DecodeRune\<close> of the Go library.\<close>

definition IsSurrogate :: "rune \<Rightarrow> bool" where
  "IsSurrogate r \<longleftrightarrow> 0xD800 \<le> r \<and> r < 0xE000"

definition DecodeRune :: "rune \<Rightarrow> rune \<Rightarrow> rune" where
  "DecodeRune r1 r2 =
     (if 0xD800 \<le> r1 \<and> r1 < 0xDC00 \<and> 0xDC00 \<le> r2 \<and> r2 < 0xE000 then
        (push_bit 10 (r1 - 0xD800) OR (r2 - 0xDC00)) + 0x10000
      else RuneError)"

definition add :: "byte \<Rightarrow> 'f Decoder \<Rightarrow> 'f Decoder" where
  "add c d = d\<lparr>scratch := Add c (scratch d)\<rparr>"

definition addRune :: "rune \<Rightarrow> 'f Decoder \<Rightarrow> 'f Decoder" where
  "addRune r d = d\<lparr>scratch := AddRune r (scratch d)\<rparr>"

text \<open>
  The three labels of \<^verbatim>\<open>string\<close>: \<^verbatim>\<open>scan\<close> and \<^verbatim>\<open>scanEsc\<close> with the current byte
  \<open>c\<close>, and \<^verbatim>\<open>scanU\<close>. Every jump takes one unit of the step budget.
\<close>

fun string_scan :: "nat \<Rightarrow> byte \<Rightarrow> 'f Decoder \<Rightarrow> (string \<times> error option) \<times> 'f Decoder"
  and string_scanEsc :: "nat \<Rightarrow> byte \<Rightarrow> 'f Decoder \<Rightarrow> (string \<times> error option) \<times> 'f Decoder"
  and string_scanU :: "nat \<Rightarrow> 'f Decoder \<Rightarrow> (string \<times> error option) \<times> 'f Decoder"
where
  "string_scan 0 c d = (([], Some OutOfFuel), d)"
| "string_scan (Suc n) c d =
     (if c = CHR 0x22 then ((Bytes (scratch d), None), d)
      else if c = CHR 0x5C then (let (c1, d1) = Next d in string_scanEsc n c1 d1)
      else if c < CHR 0x20 then (([], Some (mkError ErrSyntax [''in string literal''] d)), d)
      else
        (let d1 = add c d
         in if Remaining d1 = 0 then (([], Some (mkError ErrSyntax [''in string literal''] d1)), d1)
            else (let (c1, d2) = Next d1 in string_scan n c1 d2)))"
| "string_scanEsc 0 c d = (([], Some OutOfFuel), d)"
| "string_scanEsc (Suc n) c d =
     (if c = CHR ''u'' then string_scanU n d
      else
        (case (if c = CHR 0x22 \<or> c = CHR 0x5C \<or> c = CHR ''/'' \<or> c = CHR 0x27 then Some c
               else if c = CHR ''b'' then Some (CHR 0x08)
               else if c = CHR ''f'' then Some (CHR 0x0C)
               else if c = CHR ''n'' then Some (CHR 0x0A)
               else if c = CHR ''r'' then Some (CHR 0x0D)
               else if c = CHR ''t'' then Some (CHR 0x09)
               else None) of
           None \<Rightarrow> (([], Some (mkError ErrSyntax [''in string escape code''] d)), d)
         | Some x \<Rightarrow> (let (c1, d1) = Next (add x d) in string_scan n c1 d1)))"
| "string_scanU 0 d = (([], Some OutOfFuel), d)"
| "string_scanU (Suc n) d =
     (let (r, d1) = u4 d
      in if r < 0 then (([], Some (mkError ErrSyntax [''in unicode escape sequence''] d1)), d1)
         else
           (let (c, d2) = Next d1
            in if \<not> IsSurrogate r \<or> c \<noteq> CHR 0x5C then string_scan n c (addRune r d2)
               else
                 (let (c', d3) = Next d2
                  in if c' \<noteq> CHR ''u'' then string_scanEsc n c' (addRune r d3)
                     else
                       (let (r2, d4) = u4 d3
                        in if r2 < 0 then
                             (([], Some (mkError ErrSyntax [''in unicode escape sequence''] d4)), d4)
                           else
                             (let (c'', d5) = Next (addRune (DecodeRune r r2) d4)
                              in string_scan n c'' d5)))))"

definition string :: "nat \<Rightarrow> 'f Decoder \<Rightarrow> (string \<times> error option) \<times> 'f Decoder" where
  "string n d = (let (c, d1) = Next (d\<lparr>scratch := Reset (scratch d)\<rparr>) in string_scan n c d1)"

subsection \<open>Numbers\<close>

text \<open>The loop \<^verbatim>\<open>for ; c >= '0' && c <= '9'; c = d.Next() { d.scratch.Add(c) }\<close>.\<close>

fun digits :: "nat \<Rightarrow> byte \<Rightarrow> 'f Decoder \<Rightarrow> byte option \<times> 'f Decoder" where
  "digits 0 c d = (None, d)"
| "digits (Suc n) c d =
     (if c \<ge> CHR ''0'' \<and> c \<le> CHR ''9'' then (let (c1, d1) = Next (add c d) in digits n c1 d1)
      else (Some c, d))"

text \<open>The loop over the digits after the first one behind the decimal point.\<close>

fun frac_digits :: "nat \<Rightarrow> 'f Decoder \<Rightarrow> (error + byte) \<times> 'f Decoder" where
  "frac_digits 0 d = (Inl OutOfFuel, d)"
| "frac_digits (Suc n) d =
     (if Remaining d = 0 then (Inl (mkError ErrUnexpectedEOF [] d), d)
      else
        (let (c, d1) = Next d
         in if c < CHR ''0'' \<or> c > CHR ''9'' then (Inr c, d1)
            else frac_digits n (add c d1)))"

text \<open>
  The three parts of \<^verbatim>\<open>number\<close> before the conversion: the integer digits, the
  fraction, the exponent. Each returns the byte \<open>c\<close> it stopped at; the last two thread
  \<^verbatim>\<open>isFloat\<close>.
\<close>

definition number_int :: "nat \<Rightarrow> 'f Decoder \<Rightarrow> byte option \<times> 'f Decoder" where
  "number_int n d =
     (let c = Cur d
      in if c = CHR ''0'' then (let (c1, d1) = Next (add c d) in (Some c1, d1))
         else if CHR ''1'' \<le> c \<and> c \<le> CHR ''9'' then digits n c d
         else (Some c, d))"

definition number_frac :: "nat \<Rightarrow> byte \<Rightarrow> 'f Decoder \<Rightarrow> (error + bool \<times> byte) \<times> 'f Decoder" where
  "number_frac n c d =
     (if c = CHR ''.'' then
        (let (c1, d1) = Next (add c d)
         in if c1 < CHR ''0'' \<and> c1 > CHR ''9'' then
              (Inl (mkError ErrSyntax [''after decimal point in numeric literal''] d1), d1)
            else
              (case frac_digits n (add c1 d1) of
                 (Inl e, d2) \<Rightarrow> (Inl e, d2)
               | (Inr c2, d2) \<Rightarrow> (Inr (True, c2), d2)))
      else (Inr (False, c), d))"

definition number_exp :: "nat \<Rightarrow> bool \<Rightarrow> byte \<Rightarrow> 'f Decoder \<Rightarrow> (error + bool) \<times> 'f Decoder" where
  "number_exp n isFloat c d =
     (if c = CHR ''e'' \<or> c = CHR ''E'' then
        (let (c1, d1) = Next (add c d)
         in if c1 = CHR ''+'' \<or> c1 = CHR ''-'' then
              (let (c2, d2) = Next (add c1 d1)
               in if c2 < CHR ''0'' \<or> c2 > CHR ''9'' then
                    (Inl (mkError ErrSyntax [''in exponent of numeric literal''] d2), d2)
                  else
                    (case digits n c2 (add c2 d2) of
                       (None, d3) \<Rightarrow> (Inl OutOfFuel, d3)
                     | (Some _, d3) \<Rightarrow> (Inr True, d3)))
            else
              (case digits n c1 d1 of
                 (None, d2) \<Rightarrow> (Inl OutOfFuel, d2)
               | (Some _, d2) \<Rightarrow> (Inr True, d2)))
      else (Inr isFloat, d))"

text \<open>
  \<^verbatim>\<open>number\<close>. Beside an error of its own it returns the untyped constant \<^verbatim>\<open>0\<close>; the
  result of \<^verbatim>\<open>strconv.ParseInt\<close> is returned as it is.
\<close>

definition number :: "nat \<Rightarrow> 'f float64 \<Rightarrow> 'f Decoder \<Rightarrow> ('f val \<times> error option) \<times> 'f Decoder" where
  "number n fl d =
     (case number_int n (d\<lparr>scratch := Reset (scratch d)\<rparr>) of
        (None, d1) \<Rightarrow> ((VInt 0, Some OutOfFuel), d1)
      | (Some c, d1) \<Rightarrow>
          (case number_frac n c d1 of
             (Inl e, d2) \<Rightarrow> ((VInt 0, Some e), d2)
           | (Inr (isFloat, c1), d2) \<Rightarrow>
               (case number_exp n isFloat c1 d2 of
                  (Inl e, d3) \<Rightarrow> ((VInt 0, Some e), d3)
                | (Inr isFloat', d3) \<Rightarrow>
                    (case Back d3 of
                       None \<Rightarrow> ((VInt 0, Some (Panic ''back buffer exhausted'')), d3)
                     | Some d4 \<Rightarrow>
                         (let sn = Bytes (scratch d4)
                          in if isFloat' then
                               (case ParseFloat fl sn of
                                  (x, Some e) \<Rightarrow> ((VInt 0, Some (NumError ''ParseFloat'' sn e)), d4)
                                | (x, None) \<Rightarrow> ((VFloat64 x, None), d4))
                             else
                               (case ParseInt sn of
                                  (i, e) \<Rightarrow> ((VInt64 i, e), d4)))))))"

subsection \<open>Values, arrays and objects\<close>

text \<open>\<^verbatim>\<open>keys := append(pKeys, k)\<close> on the decoder's store.\<close>

definition append_key :: "slice \<Rightarrow> string \<Rightarrow> 'f Decoder \<Rightarrow> slice \<times> 'f Decoder" where
  "append_key pKeys k d = (case append1 (heap d) pKeys k of (keys, h) \<Rightarrow> (keys, d\<lparr>heap := h\<rparr>))"

text \<open>The \<^verbatim>\<open>MetaValue\<close> that \<^verbatim>\<open>emitAny\<close> and the \<^verbatim>\<open>emitKV\<close> branch build.\<close>

definition mkMeta :: "int \<Rightarrow> slice \<Rightarrow> 'f val \<Rightarrow> ValueType \<Rightarrow> 'f Decoder \<Rightarrow> 'f MetaValue" where
  "mkMeta offset keys v t d =
     \<lparr>Offset = offset, Length = Pos d - offset, Depth = depth d, Keys = keys, Value = v, ValueType = t\<rparr>"

text \<open>The type switch of \<^verbatim>\<open>any\<close> on what \<^verbatim>\<open>number\<close> returned, \<open>negative\<close> after a leading \<^verbatim>\<open>-\<close>.\<close>

definition number_value ::
  "'f float64 \<Rightarrow> bool \<Rightarrow> 'f val \<Rightarrow> 'f Decoder \<Rightarrow> 'f val \<times> ValueType \<times> error option" where
  "number_value fl negative v d =
     (case v of
        VInt64 n \<Rightarrow> (VInt64 (if negative then - n else n), Number, None)
      | VFloat64 x \<Rightarrow> (VFloat64 (if negative then fneg fl x else x), Number, None)
      | _ \<Rightarrow> (VNil, Number, Some (mkError ErrSyntax [''invalid number type''] d)))"

text \<open>The literals \<^verbatim>\<open>false\<close>, \<^verbatim>\<open>true\<close> and \<^verbatim>\<open>null\<close>: the bytes after the first, read
  one at a time and only as long as they match.\<close>

fun literal :: "byte list \<Rightarrow> 'f Decoder \<Rightarrow> bool \<times> 'f Decoder" where
  "literal [] d = (True, d)"
| "literal (x # xs) d = (let (c, d1) = Next d in if c = x then literal xs d1 else (False, d1))"

text \<open>
  \<^verbatim>\<open>emitAny\<close>, \<^verbatim>\<open>any\<close>, \<^verbatim>\<open>array\<close> (with its label \<^verbatim>\<open>scan\<close>) and \<^verbatim>\<open>object\<close>
  (with its loop) call each other. Each body is written once, over the functions it
  calls; \<open>parser\<close> below closes the recursion, every call taking one unit of the step
  budget. \<^verbatim>\<open>object\<close> and \<^verbatim>\<open>objectOrdered\<close> are the same text but for the container they
  fill, a map or a \<^verbatim>\<open>KVS\<close>: \<open>ordered\<close> selects the second.
\<close>

type_synonym 'f emitAny_fn = "slice \<Rightarrow> 'f Decoder \<Rightarrow> ('f val \<times> error option) \<times> 'f Decoder"
type_synonym 'f any_fn = "slice \<Rightarrow> 'f Decoder \<Rightarrow> ('f val \<times> ValueType \<times> error option) \<times> 'f Decoder"
type_synonym 'f array_fn = "slice \<Rightarrow> 'f Decoder \<Rightarrow> ('f val list \<times> error option) \<times> 'f Decoder"
type_synonym 'f array_scan_fn =
  "slice \<Rightarrow> 'f val list \<Rightarrow> 'f Decoder \<Rightarrow> ('f val list \<times> error option) \<times> 'f Decoder"
type_synonym 'f object_fn =
  "bool \<Rightarrow> slice \<Rightarrow> 'f Decoder \<Rightarrow> ((string \<times> 'f val) list option \<times> error option) \<times> 'f Decoder"
type_synonym 'f object_scan_fn =
  "bool \<Rightarrow> slice \<Rightarrow> (string \<times> 'f val) list option \<Rightarrow> byte \<Rightarrow> 'f Decoder
     \<Rightarrow> ((string \<times> 'f val) list option \<times> error option) \<times> 'f Decoder"

definition emitAny_body :: "'f any_fn \<Rightarrow> 'f emitAny_fn" where
  "emitAny_body any' pKeys d =
     (if Pos d \<ge> End d then ((VNil, Some (mkError ErrUnexpectedEOF [] d)), d)
      else
        (let offset = Pos d - 1
         in case any' pKeys d of
              ((i, t, e), d1) \<Rightarrow>
                ((i, e), if willEmit d1 then send (mkMeta offset pKeys i t d1) d1 else d1)))"

definition any_body :: "nat \<Rightarrow> 'f float64 \<Rightarrow> 'f array_fn \<Rightarrow> 'f object_fn \<Rightarrow> 'f any_fn" where
  "any_body n fl array' object' pKeys d =
     (let c = Cur d
      in if c = CHR 0x22 then
           (case string n d of ((i, e), d1) \<Rightarrow> ((VString i, String, e), d1))
         else if CHR ''0'' \<le> c \<and> c \<le> CHR ''9'' then
           (case number n fl d of
              ((ii, Some e), d1) \<Rightarrow> ((VNil, Unknown, Some e), d1)
            | ((ii, None), d1) \<Rightarrow> (number_value fl False ii d1, d1))
         else if c = CHR ''-'' then
           (let (c1, d1) = Next d
            in if c1 < CHR ''0'' \<and> c1 > CHR ''9'' then
                 ((VNil, Unknown, Some (mkError ErrSyntax [''in negative numeric literal''] d1)), d1)
               else
                 (case number n fl d1 of
                    ((ni, Some e), d2) \<Rightarrow> ((VNil, Unknown, Some e), d2)
                  | ((ni, None), d2) \<Rightarrow> (number_value fl True ni d2, d2)))
         else if c = CHR ''f'' then
           (if Remaining d < 4 then ((VNil, Unknown, Some (mkError ErrUnexpectedEOF [] d)), d)
            else
              (case literal ''alse'' d of
                 (True, d1) \<Rightarrow> ((VBool False, Boolean, None), d1)
               | (False, d1) \<Rightarrow> ((VNil, Unknown, Some (mkError ErrSyntax [''in literal false''] d1)), d1)))
         else if c = CHR ''t'' then
           (if Remaining d < 3 then ((VNil, Unknown, Some (mkError ErrUnexpectedEOF [] d)), d)
            else
              (case literal ''rue'' d of
                 (True, d1) \<Rightarrow> ((VBool True, Boolean, None), d1)
               | (False, d1) \<Rightarrow> ((VNil, Unknown, Some (mkError ErrSyntax [''in literal true''] d1)), d1)))
         else if c = CHR ''n'' then
           (if Remaining d < 3 then ((VNil, Unknown, Some (mkError ErrUnexpectedEOF [] d)), d)
            else
              (case literal ''ull'' d of
                 (True, d1) \<Rightarrow> ((VNil, Null, None), d1)
               | (False, d1) \<Rightarrow> ((VNil, Unknown, Some (mkError ErrSyntax [''in literal null''] d1)), d1)))
         else if c = CHR ''['' then
           (case array' pKeys d of ((i, e), d1) \<Rightarrow> ((VArray i, Array, e), d1))
         else if c = CHR ''{'' then
           (case object' (objectAsKVS d) pKeys d of
              ((i, e), d1) \<Rightarrow> ((if objectAsKVS d then VKVS i else VMap i, Object, e), d1))
         else ((VNil, Unknown, Some (mkError ErrSyntax [''looking for beginning of value''] d)), d))"

definition array_body :: "nat \<Rightarrow> 'f array_scan_fn \<Rightarrow> 'f array_fn" where
  "array_body n array_scan' pKeys d =
     (case append_key pKeys [] (d\<lparr>depth := depth d + 1\<rparr>) of
        (parentKeys, d1) \<Rightarrow>
          (case (case skipSpaces n d1 of
                   (None, d2) \<Rightarrow> (([], Some OutOfFuel), d2)
                 | (Some c, d2) \<Rightarrow>
                     if c = CHR '']'' then (([], None), d2) else array_scan' parentKeys [] d2) of
             (r, d3) \<Rightarrow> (r, d3\<lparr>depth := depth d3 - 1\<rparr>)))"

definition array_scan_body :: "nat \<Rightarrow> 'f emitAny_fn \<Rightarrow> 'f array_scan_fn \<Rightarrow> 'f array_scan_fn" where
  "array_scan_body n emitAny' array_scan' parentKeys a d =
     (case emitAny' parentKeys d of
        ((v, Some e), d1) \<Rightarrow> ((a, Some e), d1)
      | ((v, None), d1) \<Rightarrow>
          (let a1 = (if depth d1 > emitDepth d1 then a @ [v] else a)
           in case skipSpaces n d1 of
                (None, d2) \<Rightarrow> ((a1, Some OutOfFuel), d2)
              | (Some c, d2) \<Rightarrow>
                  if c = CHR '','' then
                    (case skipSpaces n d2 of
                       (None, d3) \<Rightarrow> ((a1, Some OutOfFuel), d3)
                     | (Some _, d3) \<Rightarrow> array_scan' parentKeys a1 d3)
                  else if c = CHR '']'' then ((a1, None), d2)
                  else ((a1, Some (mkError ErrSyntax [''after array element''] d2)), d2)))"

definition object_body :: "nat \<Rightarrow> 'f object_scan_fn \<Rightarrow> 'f object_fn" where
  "object_body n object_scan' ordered pKeys d =
     (let d1 = d\<lparr>depth := depth d + 1\<rparr>;
          obj = (if depth d1 > emitDepth d1 then Some [] else None)
      in case (case skipSpaces n d1 of
                 (None, d2) \<Rightarrow> ((obj, Some OutOfFuel), d2)
               | (Some c, d2) \<Rightarrow>
                   if c = CHR ''}'' then ((obj, None), d2) else object_scan' ordered pKeys obj c d2) of
           (r, d3) \<Rightarrow> (r, d3\<lparr>depth := depth d3 - 1\<rparr>))"

text \<open>The value of one member: through \<^verbatim>\<open>any\<close> and an emission of a \<^verbatim>\<open>KV\<close> when
  \<^verbatim>\<open>emitKV\<close> is set, through \<^verbatim>\<open>emitAny\<close> otherwise.\<close>

definition member_value ::
  "'f emitAny_fn \<Rightarrow> 'f any_fn \<Rightarrow> int \<Rightarrow> string \<Rightarrow> slice \<Rightarrow> 'f Decoder \<Rightarrow> ('f val \<times> error option) \<times> 'f Decoder" where
  "member_value emitAny' any' offset k keys d =
     (if emitKV d then
        (case any' keys d of
           ((v, t, Some e), d1) \<Rightarrow> ((v, Some e), d1)
         | ((v, t, None), d1) \<Rightarrow>
             ((v, None), if willEmit d1 then send (mkMeta offset keys (VKV k v) t d1) d1 else d1))
      else emitAny' keys d)"

text \<open>What follows a member: \<^verbatim>\<open>}\<close> ends the object, \<^verbatim>\<open>,\<close> starts the next round.\<close>

definition object_next ::
  "nat \<Rightarrow> 'f object_scan_fn \<Rightarrow> bool \<Rightarrow> slice \<Rightarrow> (string \<times> 'f val) list option \<Rightarrow> 'f Decoder
     \<Rightarrow> ((string \<times> 'f val) list option \<times> error option) \<times> 'f Decoder" where
  "object_next n object_scan' ordered pKeys obj d =
     (case skipSpaces n d of
        (None, d1) \<Rightarrow> ((obj, Some OutOfFuel), d1)
      | (Some c, d1) \<Rightarrow>
          if c = CHR ''}'' then ((obj, None), d1)
          else if c = CHR '','' then
            (case skipSpaces n d1 of
               (None, d2) \<Rightarrow> ((obj, Some OutOfFuel), d2)
             | (Some c1, d2) \<Rightarrow> object_scan' ordered pKeys obj c1 d2)
          else ((obj, Some (mkError ErrSyntax [''after object key:value pair''] d1)), d1))"

definition object_scan_body ::
  "nat \<Rightarrow> 'f emitAny_fn \<Rightarrow> 'f any_fn \<Rightarrow> 'f object_scan_fn \<Rightarrow> 'f object_scan_fn" where
  "object_scan_body n emitAny' any' object_scan' ordered pKeys obj c d =
     (let offset = Pos d - 1
      in if c \<noteq> CHR 0x22 then
           ((obj, Some (mkError ErrSyntax [''looking for beginning of object key string''] d)), d)
         else
           (case string n d of
              ((k, Some e), d1) \<Rightarrow> ((obj, Some e), d1)
            | ((k, None), d1) \<Rightarrow>
                (case skipSpaces n d1 of
                   (None, d2) \<Rightarrow> ((obj, Some OutOfFuel), d2)
                 | (Some c1, d2) \<Rightarrow>
                     if c1 \<noteq> CHR '':'' then ((obj, Some (mkError ErrSyntax [''after object key''] d2)), d2)
                     else
                       (case skipSpaces n d2 of
                          (None, d3) \<Rightarrow> ((obj, Some OutOfFuel), d3)
                        | (Some _, d3) \<Rightarrow>
                            (case append_key pKeys k d3 of
                               (keys, d4) \<Rightarrow>
                                 (case member_value emitAny' any' offset k keys d4 of
                                    ((v, Some e), d5) \<Rightarrow> ((obj, Some e), d5)
                                  | ((v, None), d5) \<Rightarrow>
                                      object_next n object_scan' ordered pKeys
                                        (case obj of
                                           None \<Rightarrow> None
                                         | Some kvs \<Rightarrow>
                                             Some (if ordered then kvs @ [(k, v)] else AList.update k v kvs))
                                        d5))))))"

record 'f fns =
  p_emitAny :: "'f emitAny_fn"
  p_any :: "'f any_fn"
  p_array :: "'f array_fn"
  p_array_scan :: "'f array_scan_fn"
  p_object :: "'f object_fn"
  p_object_scan :: "'f object_scan_fn"

primrec parser :: "nat \<Rightarrow> 'f float64 \<Rightarrow> 'f fns" where
  "parser 0 fl =
     \<lparr>p_emitAny = (\<lambda>pKeys d. ((VNil, Some OutOfFuel), d)),
      p_any = (\<lambda>pKeys d. ((VNil, Unknown, Some OutOfFuel), d)),
      p_array = (\<lambda>pKeys d. (([], Some OutOfFuel), d)),
      p_array_scan = (\<lambda>parentKeys a d. ((a, Some OutOfFuel), d)),
      p_object = (\<lambda>ordered pKeys d. ((None, Some OutOfFuel), d)),
      p_object_scan = (\<lambda>ordered pKeys obj c d. ((obj, Some OutOfFuel), d))\<rparr>"
| "parser (Suc n) fl =
     \<lparr>p_emitAny = emitAny_body (p_any (parser n fl)),
      p_any = any_body n fl (p_array (parser n fl)) (p_object (parser n fl)),
      p_array = array_body n (p_array_scan (parser n fl)),
      p_array_scan = array_scan_body n (p_emitAny (parser n fl)) (p_array_scan (parser n fl)),
      p_object = object_body n (p_object_scan (parser n fl)),
      p_object_scan =
        object_scan_body n (p_emitAny (parser n fl)) (p_any (parser n fl)) (p_object_scan (parser n fl))\<rparr>"

definition emitAny :: "nat \<Rightarrow> 'f float64 \<Rightarrow> 'f emitAny_fn" where
  "emitAny n fl = p_emitAny (parser n fl)"

definition any :: "nat \<Rightarrow> 'f float64 \<Rightarrow> 'f any_fn" where
  "any n fl = p_any (parser n fl)"

definition array :: "nat \<Rightarrow> 'f float64 \<Rightarrow> 'f array_fn" where
  "array n fl = p_array (parser n fl)"

definition array_scan :: "nat \<Rightarrow> 'f float64 \<Rightarrow> 'f array_scan_fn" where
  "array_scan n fl = p_array_scan (parser n fl)"

definition object :: "nat \<Rightarrow> 'f float64 \<Rightarrow> 'f object_fn" where
  "object n fl = p_object (parser n fl)"

definition object_scan :: "nat \<Rightarrow> 'f float64 \<Rightarrow> 'f object_scan_fn" where
  "object_scan n fl = p_object_scan (parser n fl)"

text \<open>The loop of \<^verbatim>\<open>decode\<close>, and \<^verbatim>\<open>decode\<close> itself (what \<^verbatim>\<open>Stream\<close> starts).\<close>

fun decode_loop :: "nat \<Rightarrow> 'f float64 \<Rightarrow> 'f Decoder \<Rightarrow> 'f Decoder" where
  "decode_loop 0 fl d = d\<lparr>err := Some OutOfFuel\<rparr>"
| "decode_loop (Suc n) fl d =
     (if Pos d < End d then
        (case emitAny n fl empty_slice d of
           ((_, Some e), d1) \<Rightarrow> d1\<lparr>err := Some e\<rparr>
         | ((_, None), d1) \<Rightarrow>
             (case skipSpaces n d1 of
                (None, d2) \<Rightarrow> d2\<lparr>err := Some OutOfFuel\<rparr>
              | (Some _, d2) \<Rightarrow> decode_loop n fl d2))
      else d)"

definition decode :: "nat \<Rightarrow> 'f float64 \<Rightarrow> 'f Decoder \<Rightarrow> 'f Decoder" where
  "decode n fl d =
     (case skipSpaces n d of
        (None, d1) \<Rightarrow> d1\<lparr>err := Some OutOfFuel\<rparr>
      | (Some _, d1) \<Rightarrow> decode_loop n fl d1)"

section \<open>Serialising a \<^verbatim>\<open>KVS\<close>\<close>

text \<open>
  \<^verbatim>\<open>KVS.MarshalJSON\<close>, over \<^verbatim>\<open>json.Marshal\<close> of the Go library for the member values;
  \<open>b\<close> is the buffer written so far.
\<close>

fun MarshalJSON_loop ::
  "('f val \<Rightarrow> string \<times> error option) \<Rightarrow> (string \<times> 'f val) list \<Rightarrow> string \<Rightarrow> string \<times> error option" where
  "MarshalJSON_loop json_Marshal [] b = (b, None)"
| "MarshalJSON_loop json_Marshal ((k, v) # rest) b =
     (case json_Marshal v of
        (valBuf, Some e) \<Rightarrow> ([], Some e)
      | (valBuf, None) \<Rightarrow>
          MarshalJSON_loop json_Marshal rest
            (b @ ([CHR 0x22] @ k @ [CHR 0x22] @ '':'') @ valBuf @ (if rest \<noteq> [] then '','' else [])))"

definition MarshalJSON ::
  "('f val \<Rightarrow> string \<times> error option) \<Rightarrow> (string \<times> 'f val) list \<Rightarrow> string \<times> error option" where
  "MarshalJSON json_Marshal kvs =
     (case MarshalJSON_loop json_Marshal kvs ''{'' of
        (b, Some e) \<Rightarrow> ([], Some e)
      | (b, None) \<Rightarrow> (b @ ''}'', None))"

section \<open>Vocabulary of the properties\<close>

text \<open>The bytes and the state after \<open>k\<close> calls of \<^verbatim>\<open>Next\<close>.\<close>

fun nexts :: "nat \<Rightarrow> 'a Scanner_scheme \<Rightarrow> byte list \<times> 'a Scanner_scheme" where
  "nexts 0 s = ([], s)"
| "nexts (Suc k) s = (case Next s of (c, s1) \<Rightarrow> (case nexts k s1 of (cs, s2) \<Rightarrow> (c # cs, s2)))"

text \<open>
  The scratch buffer is in bounds: the next write position lies inside the backing
  array, which has room for a rune once doubled. \<^verbatim>\<open>NewDecoder\<close> establishes this and
  every operation of the buffer keeps it.
\<close>

definition scratch_ok :: "Scratch \<Rightarrow> bool" where
  "scratch_ok s \<longleftrightarrow> fill s < cap s \<and> UTFMax \<le> cap s"

text \<open>A literal is a float literal for \<^verbatim>\<open>number\<close> when it has a point or an exponent mark.\<close>

definition float_literal :: "string \<Rightarrow> bool" where
  "float_literal lit \<longleftrightarrow> CHR ''.'' \<in> set lit \<or> CHR ''e'' \<in> set lit \<or> CHR ''E'' \<in> set lit"

text \<open>Every value sent so far has as many keys as its depth.\<close>

definition keys_match_depth :: "'f Decoder \<Rightarrow> bool" where
  "keys_match_depth d \<longleftrightarrow> (\<forall>(mv, ks) \<in> set (metaCh d). int (slen (Keys mv)) = Depth mv)"

text \<open>A step from \<open>d\<close> to \<open>d'\<close> that returns to the depth it started at and keeps that
  property of the values sent.\<close>

definition keeps :: "'f Decoder \<Rightarrow> 'f Decoder \<Rightarrow> bool" where
  "keeps d d' \<longleftrightarrow> depth d' = depth d \<and> (keys_match_depth d \<longrightarrow> keys_match_depth d')"

text \<open>A stand-in for \<^verbatim>\<open>strconv.ParseFloat\<close> and the negation of a \<^verbatim>\<open>float64\<close> that keeps
  the text: it is used to run the decoder on examples.\<close>

definition text_float64 :: "string float64" where
  "text_float64 = \<lparr>ParseFloat = (\<lambda>s. (s, None)), fneg = (\<lambda>s. CHR ''-'' # s)\<rparr>"

section \<open>The equations of the parser\<close>

lemma emitAny_0: "emitAny 0 fl pKeys d = ((VNil, Some OutOfFuel), d)"
  by (simp add: emitAny_def)

lemma emitAny_Suc: "emitAny (Suc n) fl pKeys d = emitAny_body (any n fl) pKeys d"
  by (simp add: emitAny_def any_def)

lemma any_0: "any 0 fl pKeys d = ((VNil, Unknown, Some OutOfFuel), d)"
  by (simp add: any_def)

lemma any_Suc: "any (Suc n) fl pKeys d = any_body n fl (array n fl) (object n fl) pKeys d"
  by (simp add: any_def array_def object_def)

lemma array_0: "array 0 fl pKeys d = (([], Some OutOfFuel), d)"
  by (simp add: array_def)

lemma array_Suc: "array (Suc n) fl pKeys d = array_body n (array_scan n fl) pKeys d"
  by (simp add: array_def array_scan_def)

lemma array_scan_0: "array_scan 0 fl parentKeys a d = ((a, Some OutOfFuel), d)"
  by (simp add: array_scan_def)

lemma array_scan_Suc:
  "array_scan (Suc n) fl parentKeys a d =
     array_scan_body n (emitAny n fl) (array_scan n fl) parentKeys a d"
  by (simp add: array_scan_def emitAny_def)

lemma object_0: "object 0 fl ordered pKeys d = ((None, Some OutOfFuel), d)"
  by (simp add: object_def)

lemma object_Suc: "object (Suc n) fl ordered pKeys d = object_body n (object_scan n fl) ordered pKeys d"
  by (simp add: object_def object_scan_def)

lemma object_scan_0: "object_scan 0 fl ordered pKeys obj c d = ((obj, Some OutOfFuel), d)"
  by (simp add: object_scan_def)

lemma object_scan_Suc:
  "object_scan (Suc n) fl ordered pKeys obj c d =
     object_scan_body n (emitAny n fl) (any n fl) (object_scan n fl) ordered pKeys obj c d"
  by (simp add: object_scan_def emitAny_def any_def)

declare emitAny_0 [code] emitAny_Suc [code] any_0 [code] any_Suc [code]
  array_0 [code] array_Suc [code] array_scan_0 [code] array_scan_Suc [code]
  object_0 [code] object_Suc [code] object_scan_0 [code] object_scan_Suc [code]

section \<open>What the scanner and the scratch buffer leave alone\<close>

text \<open>The scanner's operations change the scanner's fields only.\<close>

lemma more_eq_fields:
  fixes d d' :: "'f Decoder"
  assumes "Scanner.more d' = Scanner.more d"
  shows "depth d' = depth d" "metaCh d' = metaCh d" "scratch d' = scratch d" "heap d' = heap d"
    "emitDepth d' = emitDepth d" "emitKV d' = emitKV d" "emitRecursive d' = emitRecursive d"
    "objectAsKVS d' = objectAsKVS d" "lineNo d' = lineNo d" "lineStart d' = lineStart d" "err d' = err d"
  using assms by (cases d; cases d'; simp)+

lemma worker_more [simp]: "Scanner.more (worker r s) = Scanner.more s"
  by (induction r arbitrary: s) (simp_all add: Let_def)

lemma Next_more [simp]: "Scanner.more (snd (Next s)) = Scanner.more s"
  by (simp add: Next_def refill_def Let_def)

lemma Back_more: "Back s = Some s' \<Longrightarrow> Scanner.more s' = Scanner.more s"
  by (auto simp: Back_def split: if_splits)

lemma length_EncodeRune: "length (EncodeRune r) \<le> 4"
  by (simp add: EncodeRune_def Let_def)

lemma scratch_ok_Reset: "scratch_ok s \<Longrightarrow> scratch_ok (Reset s)"
  by (auto simp: scratch_ok_def Reset_def UTFMax_def)

lemma Bytes_Reset [simp]: "Bytes (Reset s) = []"
  by (simp add: Bytes_def Reset_def)

lemma scratch_ok_Add: "scratch_ok s \<Longrightarrow> scratch_ok (Add c s)"
  by (auto simp: scratch_ok_def Add_def grow_def UTFMax_def Let_def)

lemma Bytes_Add: "scratch_ok s \<Longrightarrow> Bytes (Add c s) = Bytes s @ [c]"
  by (auto simp: scratch_ok_def Add_def grow_def Bytes_def Let_def)

lemma scratch_ok_AddRune: "scratch_ok s \<Longrightarrow> scratch_ok (AddRune r s)"
  using length_EncodeRune [of r]
  by (auto simp: scratch_ok_def AddRune_def grow_def UTFMax_def Let_def)

lemma map_shift_nth: "map (\<lambda>i. if (k::nat) \<le> i \<and> i < k + length p then p ! (i - k) else f i) [k..<k + length p] = p"
  by (rule nth_equalityI) simp_all

lemma Bytes_AddRune: 
  assumes "scratch_ok s"
  shows "Bytes (AddRune r s) = Bytes s @ EncodeRune r"
proof -
  define s1 where "s1 = (if fill s + UTFMax \<ge> cap s then grow s else s)"
  define p where "p = EncodeRune r"
  have f: "fill s1 = fill s" by (simp add: s1_def grow_def)
  have dat: "\<And>i. i < fill s \<Longrightarrow> Data s1 i = Data s i"
    using assms by (simp add: s1_def grow_def scratch_ok_def)
  have split: "[0..<fill s + length p] = [0..<fill s] @ [fill s..<fill s + length p]"
    by (rule upt_add_eq_append) simp
  have "Bytes (AddRune r s) =
        map (\<lambda>i. if fill s \<le> i \<and> i < fill s + length p then p ! (i - fill s) else Data s1 i)
          [0..<fill s + length p]"
    by (simp add: AddRune_def Bytes_def Let_def s1_def [symmetric] p_def [symmetric] f)
  also have "\<dots> = map (Data s) [0..<fill s] @ p"
    unfolding split map_append map_shift_nth by (simp add: dat)
  finally show ?thesis by (simp add: Bytes_def p_def)
qed

text \<open>Below \<^verbatim>\<open>emitAny\<close>, nothing changes the depth or sends a value.\<close>

lemma Next_frame [simp]:
  fixes d :: "'f Decoder"
  shows "depth (snd (Next d)) = depth d" "metaCh (snd (Next d)) = metaCh d"
  by (rule more_eq_fields, simp)+

lemma Back_frame:
  fixes d :: "'f Decoder"
  assumes "Back d = Some d'"
  shows "depth d' = depth d" "metaCh d' = metaCh d"
  by (rule more_eq_fields, rule Back_more [OF assms])+

lemma add_frame [simp]: "depth (add c d) = depth d" "metaCh (add c d) = metaCh d"
  by (simp_all add: add_def)

lemma addRune_frame [simp]: "depth (addRune r d) = depth d" "metaCh (addRune r d) = metaCh d"
  by (simp_all add: addRune_def)

lemma skipSpaces_frame [simp]:
  "depth (snd (skipSpaces n d)) = depth d \<and> metaCh (snd (skipSpaces n d)) = metaCh d"
  by (induction n arbitrary: d) (simp_all add: Let_def case_prod_beta)

lemma literal_frame [simp]:
  "depth (snd (literal xs d)) = depth d \<and> metaCh (snd (literal xs d)) = metaCh d"
  by (induction xs arbitrary: d) (simp_all add: Let_def case_prod_beta)

lemma u4_loop_frame [simp]:
  "depth (snd (u4_loop k h d)) = depth d \<and> metaCh (snd (u4_loop k h d)) = metaCh d"
  by (induction k arbitrary: h d) (simp_all add: Let_def case_prod_beta)

lemma u4_frame [simp]: "depth (snd (u4 d)) = depth d" "metaCh (snd (u4 d)) = metaCh d"
  by (simp_all add: u4_def)

lemma string_machine_frame:
  "(depth (snd (string_scan n c d)) = depth d \<and> metaCh (snd (string_scan n c d)) = metaCh d) \<and>
   (depth (snd (string_scanEsc n c d)) = depth d \<and> metaCh (snd (string_scanEsc n c d)) = metaCh d) \<and>
   (depth (snd (string_scanU n d)) = depth d \<and> metaCh (snd (string_scanU n d)) = metaCh d)"
proof (induction n arbitrary: c d)
  case 0
  show ?case by simp
next
  case (Suc n)
  note IH = Suc.IH [THEN conjunct1] Suc.IH [THEN conjunct2, THEN conjunct1]
    Suc.IH [THEN conjunct2, THEN conjunct2]
  show ?case
    by (simp add: Let_def case_prod_beta IH split: option.split)
qed

lemma string_frame [simp]: "depth (snd (string n d)) = depth d" "metaCh (snd (string n d)) = metaCh d"
  by (simp_all add: string_def Let_def case_prod_beta string_machine_frame)

lemma digits_frame [simp]:
  "depth (snd (digits n c d)) = depth d \<and> metaCh (snd (digits n c d)) = metaCh d"
  by (induction n arbitrary: c d) (simp_all add: Let_def case_prod_beta)

lemma frac_digits_frame [simp]:
  "depth (snd (frac_digits n d)) = depth d \<and> metaCh (snd (frac_digits n d)) = metaCh d"
  by (induction n arbitrary: d) (simp_all add: Let_def case_prod_beta)

lemma number_int_frame [simp]:
  "depth (snd (number_int n d)) = depth d" "metaCh (snd (number_int n d)) = metaCh d"
  by (simp_all add: number_int_def Let_def case_prod_beta)

lemma number_frac_frame [simp]:
  "depth (snd (number_frac n c d)) = depth d" "metaCh (snd (number_frac n c d)) = metaCh d"
  by (simp_all add: number_frac_def Let_def case_prod_beta split: sum.split)

lemma number_exp_frame [simp]:
  "depth (snd (number_exp n b c d)) = depth d" "metaCh (snd (number_exp n b c d)) = metaCh d"
proof -
  obtain c1 d1 where n1: "Next (add c d) = (c1, d1)" by (cases "Next (add c d)")
  obtain c2 d2 where n2: "Next (add c1 d1) = (c2, d2)" by (cases "Next (add c1 d1)")
  obtain r3 d3 where g3: "digits n c2 (add c2 d2) = (r3, d3)" by (cases "digits n c2 (add c2 d2)")
  obtain r4 d4 where g4: "digits n c1 d1 = (r4, d4)" by (cases "digits n c1 d1")
  have f1: "depth d1 = depth d" "metaCh d1 = metaCh d"
    using Next_frame [of "add c d"] n1 by simp_all
  have f2: "depth d2 = depth d" "metaCh d2 = metaCh d"
    using Next_frame [of "add c1 d1"] n2 f1 by simp_all
  have f3: "depth d3 = depth d" "metaCh d3 = metaCh d"
    using digits_frame [of n c2 "add c2 d2"] g3 f2 by simp_all
  have f4: "depth d4 = depth d" "metaCh d4 = metaCh d"
    using digits_frame [of n c1 d1] g4 f1 by simp_all
  show "depth (snd (number_exp n b c d)) = depth d" "metaCh (snd (number_exp n b c d)) = metaCh d"
    by (simp_all add: number_exp_def n1 n2 g3 g4 f1 f2 f3 f4 split: option.split)
qed

lemma number_frame [simp]:
  "depth (snd (number n fl d)) = depth d" "metaCh (snd (number n fl d)) = metaCh d"
  by (auto simp: number_def Let_def case_prod_beta Back_frame split: option.split sum.split prod.split)

lemma append_key_frame [simp]:
  "depth (snd (append_key pKeys k d)) = depth d" "metaCh (snd (append_key pKeys k d)) = metaCh d"
  "slen (fst (append_key pKeys k d)) = slen pKeys + 1"
  by (simp_all add: append_key_def append1_def Let_def split: prod.split)

section \<open>Runs of the decoder\<close>

subsection \<open>Scanner: lookback across a refill\<close>

text \<open>
  Claim C8. The claim: for every reader, also one whose reads return fewer than 4095
  bytes, a \<^verbatim>\<open>Next\<close> that crosses the end of the active buffer puts the last byte consumed
  into slot 0, so that one \<^verbatim>\<open>Back\<close> makes \<^verbatim>\<open>Cur\<close> return the byte before the boundary.
  The code copies \<^verbatim>\<open>buf[len(buf)-1]\<close>, which is that byte only after a full chunk. With a
  reader that returns \<^verbatim>\<open>ab\<close> and then \<^verbatim>\<open>c\<close>: after two calls of \<^verbatim>\<open>Next\<close> the current
  byte is \<^verbatim>\<open>b\<close>, the third call crosses the boundary and returns \<^verbatim>\<open>c\<close>, and after
  \<^verbatim>\<open>Back\<close> the current byte is the zero byte of the never written slot 4095, not \<^verbatim>\<open>b\<close>.
\<close>

theorem Back_after_short_read:
  "(let s2 = snd (Next (snd (Next (New [''ab'', ''c'']))));
        s3 = snd (Next s2)
    in (Cur s2, Cur s3, map_option Cur (Back s3))) = (CHR ''b'', CHR ''c'', Some (CHR 0x00))"
  by code_simp

subsection \<open>Numbers: the guard after a minus sign, the smallest integer\<close>

text \<open>
  Claim C3. The claim: when the byte after a leading \<^verbatim>\<open>-\<close> is not a digit, the parser
  raises the syntax error with the context "in negative numeric literal". The guard of
  that error is \<^verbatim>\<open>c < '0' && c > '9'\<close>, which no byte satisfies. On the input \<^verbatim>\<open>-x\<close>
  the decoder goes on into \<^verbatim>\<open>number\<close>, which collects no digit, and ends with the error
  of \<^verbatim>\<open>strconv.ParseInt\<close> on the empty string.
\<close>

theorem minus_without_digit:
  "err (decode 10 fl (NewDecoder [''-x''] 0)) = Some (NumError ''ParseInt'' [] strconv_ErrSyntax)"
  by code_simp

text \<open>
  Claim C10. Decoding \<^verbatim>\<open>-9223372036854775808\<close> does not yield that integer: the digits
  are converted as a positive \<^verbatim>\<open>int64\<close> before the sign is applied, and the decoder ends
  with the range error of \<^verbatim>\<open>strconv.ParseInt\<close> on \<^verbatim>\<open>9223372036854775808\<close>; the one value
  sent is \<^verbatim>\<open>nil\<close>.
\<close>

theorem min_int64_out_of_range:
  "(let d = decode 30 (fl :: ('f::equal) float64) (NewDecoder [''-9223372036854775808''] 0)
    in (err d, map (Value \<circ> fst) (metaCh d))) =
   (Some (NumError ''ParseInt'' ''9223372036854775808'' strconv_ErrRange), [VNil])"
  by code_simp

end
